theory Spec2Isabelle
  imports Main "HOL-Library.Word"
begin

section \<open>Data model\<close>

text \<open>
  The embedding follows \<^verbatim>\<open>pkg/restarter/utils.go\<close>. The Go types it reads come from
  the Kubernetes API packages; only the fields the functions touch (and a few neighbours)
  are kept. A Go pointer is an \<open>option\<close> (\<open>None\<close> is \<^verbatim>\<open>nil\<close>), a Go slice is a
  \<open>list option\<close> (\<open>None\<close> is the \<^verbatim>\<open>nil\<close> slice, \<open>Some []\<close> an empty non-nil one), and a
  nil-pointer dereference is the value \<open>Inl NilPointerDereference\<close> of the result.
\<close>

datatype panic = NilPointerDereference

text \<open>
  Modelled from the spec: the type \<^verbatim>\<open>metav1.Time\<close> wraps \<^verbatim>\<open>time.Time\<close> of the Go library,
  outside the repository. A time is kept as the library keeps one that has no monotonic
  clock reading (such are the timestamps decoded from the API): the seconds since January 1
  of year 1 as a signed 64-bit number, and the nanoseconds within the second, from 0 to
  999999999, as the \<^verbatim>\<open>int32\<close> that the library reads them as. The location and monotonic
  readings are not modelled. A duration is a signed 64-bit count of nanoseconds.
\<close>

datatype Time = Time (sec: "64 word") (nsec: "32 word")

type_synonym Duration = "64 word"

text \<open>
  Modelled from the spec: the constant \<^verbatim>\<open>time.Second\<close> of the Go library, one second as a
  duration, that is 1000000000 nanoseconds.
\<close>

definition Second :: Duration where
  "Second = 1000000000"

text \<open>
  Go's \<^verbatim>\<open>/\<close> and \<^verbatim>\<open>%\<close> on integers: the quotient is truncated toward zero, and the
  remainder has the sign of the dividend.
\<close>

definition quo :: "int \<Rightarrow> int \<Rightarrow> int" where
  "quo a b = sgn a * sgn b * (\<bar>a\<bar> div \<bar>b\<bar>)"

definition rem :: "int \<Rightarrow> int \<Rightarrow> int" where
  "rem a b = a - b * quo a b"

text \<open>
  Modelled from the spec: \<^verbatim>\<open>IsZero\<close> of the library type, true for the zero instant, the
  value of a timestamp that was never set: second 0 and nanosecond 0.
\<close>

definition IsZero :: "Time \<Rightarrow> bool" where
  "IsZero t = (sec t = 0 \<and> nsec t = 0)"

text \<open>
  Modelled from the spec: \<^verbatim>\<open>addSec\<close> of the library type adds \<open>d\<close> seconds. The sum is
  computed in 64 bits; when it has overflowed, which the test
  \<^verbatim>\<open>(sum > t.ext) == (d > 0)\<close> finds out, the seconds saturate at \<open>2^63 - 1\<close> or at
  \<open>-(2^63 - 1)\<close>.
\<close>

definition addSec :: "64 word \<Rightarrow> 64 word \<Rightarrow> 64 word" where
  "addSec ext d =
     (let sum = ext + d
      in if (sint ext < sint sum) = (0 < sint d) then sum
         else if 0 < sint d then 9223372036854775807
         else - 9223372036854775807)"

text \<open>
  Modelled from the spec: \<^verbatim>\<open>Add\<close> of the library type, the time \<open>t + d\<close>. The duration is
  split into whole seconds \<^verbatim>\<open>d / 1e9\<close> and nanoseconds \<^verbatim>\<open>int32(d % 1e9)\<close>; the
  nanoseconds are added and brought back into one second, and the seconds are added by
  \<open>addSec\<close>.
\<close>

definition Add :: "Time \<Rightarrow> Duration \<Rightarrow> Time" where
  "Add t d =
     (let dsec = (word_of_int (quo (sint d) 1000000000) :: 64 word);
          nsec0 = nsec t + (word_of_int (rem (sint d) 1000000000) :: 32 word)
      in if 1000000000 \<le> sint nsec0 then Time (addSec (sec t) (dsec + 1)) (nsec0 - 1000000000)
         else if sint nsec0 < 0 then Time (addSec (sec t) (dsec - 1)) (nsec0 + 1000000000)
         else Time (addSec (sec t) dsec) nsec0)"

text \<open>
  Modelled from the spec: \<^verbatim>\<open>Before\<close> of the library type, true when \<open>t\<close> is strictly
  earlier than \<open>u\<close>: seconds are compared first, then nanoseconds.
\<close>

definition Before :: "Time \<Rightarrow> Time \<Rightarrow> bool" where
  "Before t u =
     (sint (sec t) < sint (sec u) \<or> sec t = sec u \<and> sint (nsec t) < sint (nsec u))"

text \<open>
  The instant a time denotes, in nanoseconds from the zero instant. The code never
  computes it; it is the measure in which the claims say "\<^verbatim>\<open>LastTransitionTime\<close> plus
  \<open>s\<close> seconds" and "earlier than".
\<close>

definition instant :: "Time \<Rightarrow> int" where
  "instant t = sint (sec t) * 1000000000 + sint (nsec t)"

text \<open>Ranging over a slice visits no element of the nil slice; its \<^verbatim>\<open>len\<close> is 0.\<close>

definition elems :: "'a list option \<Rightarrow> 'a list" where
  "elems s = (case s of None \<Rightarrow> [] | Some xs \<Rightarrow> xs)"

definition len :: "'a list option \<Rightarrow> nat" where
  "len s = length (elems s)"

text \<open>
  Modelled from the spec: \<^verbatim>\<open>v1.PodConditionType\<close> and \<^verbatim>\<open>v1.ConditionStatus\<close> are string
  types of the Kubernetes API package.
\<close>

type_synonym PodConditionType = string
type_synonym ConditionStatus = string

text \<open>
  Modelled from the spec: the constant \<^verbatim>\<open>v1.PodReady\<close> of the Kubernetes API package, the
  condition type "Ready".
\<close>

definition PodReady :: PodConditionType where
  "PodReady = ''Ready''"

text \<open>
  Modelled from the spec: the constant \<^verbatim>\<open>v1.ConditionTrue\<close> of the Kubernetes API package,
  the status "True" (the others are "False" and "Unknown").
\<close>

definition ConditionTrue :: ConditionStatus where
  "ConditionTrue = ''True''"

text \<open>
  Modelled from the spec: the types \<^verbatim>\<open>PodCondition\<close>, \<^verbatim>\<open>ContainerState\<close> (with its three
  pointers, at most one of them set), \<^verbatim>\<open>ContainerStatus\<close>, \<^verbatim>\<open>PodStatus\<close>, \<^verbatim>\<open>Pod\<close>,
  \<^verbatim>\<open>EndpointAddress\<close> and \<^verbatim>\<open>EndpointSubset\<close> are declared in the Kubernetes API package;
  the records keep the fields that the spec lists and the functions read.
\<close>

record PodCondition =
  Type :: PodConditionType
  Status :: ConditionStatus
  LastTransitionTime :: Time

record ContainerStateWaiting =
  Reason :: string
  Message :: string

record ContainerStateRunning =
  StartedAt :: Time

record ContainerStateTerminated =
  ExitCode :: "32 word"
  FinishedAt :: Time

record ContainerState =
  Waiting :: "ContainerStateWaiting option"
  Running :: "ContainerStateRunning option"
  Terminated :: "ContainerStateTerminated option"

record ContainerStatus =
  Name :: string
  State :: ContainerState

record PodStatus =
  Conditions :: "PodCondition list option"
  ContainerStatuses :: "ContainerStatus list option"

text \<open>
  The field \<^verbatim>\<open>Status\<close> of a pod is named \<open>Pod_Status\<close> here, since \<open>Status\<close> is already
  the field of a condition. \<^verbatim>\<open>DeletionTimestamp\<close> is a pointer to a time.
\<close>

record Pod =
  DeletionTimestamp :: "Time option"
  Pod_Status :: PodStatus

record EndpointAddress =
  IP :: string
  Hostname :: string

record EndpointSubset =
  Addresses :: "EndpointAddress list option"
  NotReadyAddresses :: "EndpointAddress list option"

text \<open>
  Modelled from the spec: the constant \<^verbatim>\<open>CrashLoopBackOff\<close> is declared in another file
  of the package; the spec gives its value as the platform's "CrashLoopBackOff" reason.
\<close>

definition CrashLoopBackOff :: string where
  "CrashLoopBackOff = ''CrashLoopBackOff''"

section \<open>Condition lookup\<close>

text \<open>
  The loop \<^verbatim>\<open>for i := range conditions\<close> of \<^verbatim>\<open>GetPodConditionFromList\<close>, from index \<open>i\<close>
  on: it returns at the first index whose entry has the requested type, and the sentinel
  \<open>(-1, nil)\<close> after the last index. The returned pointer \<^verbatim>\<open>&conditions[i]\<close> is modelled
  by the entry it points to.
\<close>

function GetPodConditionFromList_loop ::
  "PodCondition list \<Rightarrow> nat \<Rightarrow> PodConditionType \<Rightarrow> int \<times> PodCondition option" where
  "GetPodConditionFromList_loop conditions i conditionType =
     (if i < length conditions then
        (if Type (conditions ! i) = conditionType then (int i, Some (conditions ! i))
         else GetPodConditionFromList_loop conditions (Suc i) conditionType)
      else (-1, None))"
  by pat_completeness auto
termination
  by (relation "measure (\<lambda>(conditions, i, conditionType). length conditions - i)") auto

declare GetPodConditionFromList_loop.simps [simp del]

definition GetPodConditionFromList ::
  "PodCondition list option \<Rightarrow> PodConditionType \<Rightarrow> int \<times> PodCondition option" where
  "GetPodConditionFromList conditions conditionType =
     (case conditions of
        None \<Rightarrow> (-1, None)
      | Some cs \<Rightarrow> GetPodConditionFromList_loop cs 0 conditionType)"

definition GetPodCondition ::
  "PodStatus option \<Rightarrow> PodConditionType \<Rightarrow> int \<times> PodCondition option" where
  "GetPodCondition status conditionType =
     (case status of
        None \<Rightarrow> (-1, None)
      | Some st \<Rightarrow> GetPodConditionFromList (Conditions st) conditionType)"

definition GetPodReadyCondition :: "PodStatus \<Rightarrow> PodCondition option" where
  "GetPodReadyCondition status = snd (GetPodCondition (Some status) PodReady)"

section \<open>Readiness and availability\<close>

text \<open>
  \<^verbatim>\<open>condition != nil && condition.Status == v1.ConditionTrue\<close>: the status is read only
  when the condition is there.
\<close>

definition IsPodReadyConditionTrue :: "PodStatus \<Rightarrow> bool" where
  "IsPodReadyConditionTrue status =
     (let condition = GetPodReadyCondition status
      in case condition of
           None \<Rightarrow> False
         | Some c \<Rightarrow> Status c = ConditionTrue)"

text \<open>Reading \<^verbatim>\<open>pod.Status\<close> or \<^verbatim>\<open>pod.DeletionTimestamp\<close> through a nil pod panics.\<close>

definition IsPodReady :: "Pod option \<Rightarrow> panic + bool" where
  "IsPodReady pod =
     (case pod of
        None \<Rightarrow> Inl NilPointerDereference
      | Some p \<Rightarrow> Inr (IsPodReadyConditionTrue (Pod_Status p)))"

definition IsPodDeleted :: "Pod option \<Rightarrow> panic + bool" where
  "IsPodDeleted pod =
     (case pod of
        None \<Rightarrow> Inl NilPointerDereference
      | Some p \<Rightarrow> Inr (DeletionTimestamp p \<noteq> None))"

text \<open>
  \<^verbatim>\<open>minReadySeconds\<close> is an \<^verbatim>\<open>int32\<close>; \<^verbatim>\<open>time.Duration(minReadySeconds) * time.Second\<close>
  sign-extends it to 64 bits and multiplies there, wrapping as Go does. In the condition
  \<^verbatim>\<open>minReadySeconds == 0 || !c.LastTransitionTime.IsZero() && ...\<close> the pointer \<open>c\<close> is
  dereferenced only when the first disjunct is false.
\<close>

definition IsPodAvailable :: "Pod option \<Rightarrow> 32 word \<Rightarrow> Time \<Rightarrow> panic + bool" where
  "IsPodAvailable pod minReadySeconds now =
     (case IsPodReady pod of
        Inl e \<Rightarrow> Inl e
      | Inr ready \<Rightarrow>
          if \<not> ready then Inr False
          else
            (case pod of
               None \<Rightarrow> Inl NilPointerDereference
             | Some p \<Rightarrow>
                 let c = GetPodReadyCondition (Pod_Status p);
                     minReadySecondsDuration = (scast minReadySeconds :: Duration) * Second
                 in if minReadySeconds = 0 then Inr True
                    else
                      (case c of
                         None \<Rightarrow> Inl NilPointerDereference
                       | Some cond \<Rightarrow>
                           if \<not> IsZero (LastTransitionTime cond) \<and>
                              Before (Add (LastTransitionTime cond) minReadySecondsDuration) now
                           then Inr True
                           else Inr False)))"

section \<open>Crashloop and deletion\<close>

definition IsContainerInCrashLoopBackOff :: "ContainerState \<Rightarrow> bool" where
  "IsContainerInCrashLoopBackOff containerState =
     (case Waiting containerState of
        Some w \<Rightarrow> Reason w = CrashLoopBackOff
      | None \<Rightarrow> False)"

text \<open>The loop over \<^verbatim>\<open>status.ContainerStatuses\<close>, returning at the first hit.\<close>

fun IsPodInCrashloopBackoff_loop :: "ContainerStatus list \<Rightarrow> bool" where
  "IsPodInCrashloopBackoff_loop [] = False"
| "IsPodInCrashloopBackoff_loop (containerStatus # rest) =
     (if IsContainerInCrashLoopBackOff (State containerStatus) then True
      else IsPodInCrashloopBackoff_loop rest)"

definition IsPodInCrashloopBackoff :: "PodStatus \<Rightarrow> bool" where
  "IsPodInCrashloopBackoff status =
     IsPodInCrashloopBackoff_loop (elems (ContainerStatuses status))"

text \<open>
  \<^verbatim>\<open>!IsPodDeleted(pod) && IsPodInCrashloopBackoff(pod.Status)\<close>: the second operand is
  evaluated only for a pod that is not deleted.
\<close>

definition ShouldDeletePod :: "Pod option \<Rightarrow> panic + bool" where
  "ShouldDeletePod pod =
     (case IsPodDeleted pod of
        Inl e \<Rightarrow> Inl e
      | Inr deleted \<Rightarrow>
          if deleted then Inr False
          else
            (case pod of
               None \<Rightarrow> Inl NilPointerDereference
             | Some p \<Rightarrow> Inr (IsPodInCrashloopBackoff (Pod_Status p))))"

section \<open>Endpoints\<close>

text \<open>
  The loop over \<^verbatim>\<open>subsets\<close>; the loop variable \<^verbatim>\<open>subset\<close> is written \<open>subset'\<close>.
\<close>

fun IsReadyEndpointPresentInSubsets_loop :: "EndpointSubset list \<Rightarrow> bool" where
  "IsReadyEndpointPresentInSubsets_loop [] = False"
| "IsReadyEndpointPresentInSubsets_loop (subset' # rest) =
     (if len (Addresses subset') \<noteq> 0 then True
      else IsReadyEndpointPresentInSubsets_loop rest)"

definition IsReadyEndpointPresentInSubsets :: "EndpointSubset list option \<Rightarrow> bool" where
  "IsReadyEndpointPresentInSubsets subsets =
     IsReadyEndpointPresentInSubsets_loop (elems subsets)"

section \<open>Loading the configuration\<close>

text \<open>
  Modelled from the spec: the type \<^verbatim>\<open>ServiceDependants\<close> is declared in another file of
  the package, and \<^verbatim>\<open>ioutil.ReadFile\<close> and \<^verbatim>\<open>yaml.Unmarshal\<close> are library functions.
  They are parameters here: \<open>ReadFile\<close> gives, for a path, the pair of data and error
  that the call returns; \<open>Unmarshal\<close> gives, for the data and the value its second
  argument points to, that value after the call and the error returned; \<open>zero\<close> is the
  zero value that \<^verbatim>\<open>new(ServiceDependants)\<close> allocates. An error is an \<open>option\<close>,
  \<open>None\<close> for \<^verbatim>\<open>nil\<close>; a function's two results are a pair.
\<close>

type_synonym bytes = "8 word list option"

definition decodeConfigFile ::
  "(bytes \<Rightarrow> 'c \<Rightarrow> 'c \<times> 'e option) \<Rightarrow> 'c \<Rightarrow> bytes \<Rightarrow> 'c option \<times> 'e option" where
  "decodeConfigFile Unmarshal zero data =
     (let dependants = zero;
          (dependants', err) = Unmarshal data dependants
      in if err \<noteq> None then (None, err)
         else (Some dependants', None))"

definition LoadServiceDependants ::
  "(string \<Rightarrow> bytes \<times> 'e option) \<Rightarrow> (bytes \<Rightarrow> 'c \<Rightarrow> 'c \<times> 'e option) \<Rightarrow> 'c \<Rightarrow> string
     \<Rightarrow> 'c option \<times> 'e option" where
  "LoadServiceDependants ReadFile Unmarshal zero file =
     (let (data, err) = ReadFile file
      in if err \<noteq> None then (None, err)
         else decodeConfigFile Unmarshal zero data)"

section \<open>Auxiliary facts\<close>

text \<open>
  The product \<^verbatim>\<open>time.Duration(minReadySeconds) * time.Second\<close> fits in 64 bits for every
  \<^verbatim>\<open>int32\<close>, so the wrap-around of the multiplication never shows.
\<close>

lemma Duration_no_overflow:
  "sint ((scast (s :: 32 word) :: Duration) * Second) = sint s * 1000000000"
proof -
  have up: "sint (scast s :: 64 word) = sint s"
    by (rule sint_up_scast) (simp add: is_up)
  have lo: "- (2 ^ 31) \<le> sint s" and hi: "sint s < 2 ^ 31"
    using sint_ge [of s] sint_lt [of s] by simp_all
  have sec: "sint Second = 1000000000"
    by (simp add: Second_def)
  have "sint ((scast s :: 64 word) * Second) =
        signed_take_bit 63 (sint (scast s :: 64 word) * sint Second)"
    by (simp add: sint_word_ariths)
  also have "\<dots> = signed_take_bit 63 (sint s * 1000000000)"
    by (simp add: up sec)
  also have "\<dots> = sint s * 1000000000"
  proof (rule signed_take_bit_int_eq_self)
    show "- (2 ^ 63) \<le> sint s * 1000000000" using lo by simp
    show "sint s * 1000000000 < 2 ^ 63" using hi by simp
  qed
  finally show ?thesis .
qed

text \<open>
  A duration of whole seconds splits into these seconds and no nanoseconds; and while the
  sum of the seconds stays in 64 bits, \<open>addSec\<close> is addition.
\<close>

lemma quo_whole_seconds: "quo (k * 1000000000) 1000000000 = k"
proof -
  have "sgn k * \<bar>k\<bar> = k" by (simp add: mult_sgn_abs)
  then show ?thesis by (simp add: quo_def abs_mult sgn_mult)
qed

lemma rem_whole_seconds: "rem (k * 1000000000) 1000000000 = 0"
  by (simp add: rem_def quo_whole_seconds)

lemma sint_scast_32_64: "sint (scast (s :: 32 word) :: 64 word) = sint s"
  by (rule sint_up_scast) (simp add: is_up)

lemma addSec_in_range:
  assumes "- (2 ^ 63) \<le> sint ext + sint d" "sint ext + sint d < 2 ^ 63"
  shows "sint (addSec ext d) = sint ext + sint d"
proof -
  have "sint (ext + d) = signed_take_bit 63 (sint ext + sint d)"
    by (simp add: sint_word_ariths)
  also have "\<dots> = sint ext + sint d"
    using assms by (intro signed_take_bit_int_eq_self) simp_all
  finally have sum: "sint (ext + d) = sint ext + sint d" .
  then show ?thesis by (simp add: addSec_def Let_def)
qed

lemma Add_whole_seconds:
  assumes "0 \<le> sint (nsec t)" "sint (nsec t) < 1000000000"
  shows "Add t ((scast (s :: 32 word) :: Duration) * Second) =
     Time (addSec (sec t) (scast s)) (nsec t)"
  using assms
  by (simp add: Add_def Duration_no_overflow quo_whole_seconds rem_whole_seconds)

text \<open>
  On times whose nanoseconds lie within one second, \<open>Before\<close> compares instants.
\<close>

lemma Before_instant:
  assumes "0 \<le> sint (nsec t)" "sint (nsec t) < 1000000000"
    and "0 \<le> sint (nsec u)" "sint (nsec u) < 1000000000"
  shows "Before t u = (instant t < instant u)"
proof -
  have eq: "(sec t = sec u) = (sint (sec t) = sint (sec u))"
    by (auto intro: signed_word_eqI)
  show ?thesis
    unfolding Before_def instant_def eq using assms by arith
qed

lemma Before_Add_seconds:
  assumes "0 \<le> sint (nsec t)" "sint (nsec t) < 1000000000"
    and "0 \<le> sint (nsec now)" "sint (nsec now) < 1000000000"
    and "- (2 ^ 63) \<le> sint (sec t) + sint s" "sint (sec t) + sint s < 2 ^ 63"
  shows "Before (Add t ((scast (s :: 32 word) :: Duration) * Second)) now =
     (instant t + sint s * 1000000000 < instant now)"
proof -
  let ?t' = "Time (addSec (sec t) (scast s)) (nsec t)"
  have sec': "sint (sec ?t') = sint (sec t) + sint s"
    using assms(5,6) by (simp add: addSec_in_range sint_scast_32_64)
  have "instant ?t' = instant t + sint s * 1000000000"
    unfolding instant_def sec' by (simp add: algebra_simps)
  moreover have "Before ?t' now = (instant ?t' < instant now)"
    using assms(1-4) by (intro Before_instant) simp_all
  ultimately show ?thesis
    using assms(1,2) by (simp add: Add_whole_seconds)
qed

text \<open>The loop, from index \<open>i\<close> on, stops at the least index of the requested type.\<close>

lemma GetPodConditionFromList_loop_found:
  "i \<le> k \<Longrightarrow> k < length cs \<Longrightarrow> Type (cs ! k) = t \<Longrightarrow>
   (\<forall>j. i \<le> j \<and> j < k \<longrightarrow> Type (cs ! j) \<noteq> t) \<Longrightarrow>
   GetPodConditionFromList_loop cs i t = (int k, Some (cs ! k))"
proof (induction cs i t rule: GetPodConditionFromList_loop.induct)
  case (1 conditions i conditionType)
  show ?case
  proof (cases "i = k")
    case True
    with "1.prems" show ?thesis
      by (simp add: GetPodConditionFromList_loop.simps)
  next
    case False
    with "1.prems" have lt: "i < k" and ne: "Type (conditions ! i) \<noteq> conditionType"
      by auto
    from lt "1.prems" have il: "i < length conditions" by simp
    have "GetPodConditionFromList_loop conditions (Suc i) conditionType =
          (int k, Some (conditions ! k))"
      using "1.IH" [OF il ne] lt "1.prems" by auto
    with il ne show ?thesis
      by (subst GetPodConditionFromList_loop.simps) simp
  qed
qed

lemma GetPodConditionFromList_loop_not_found:
  "(\<forall>j. i \<le> j \<and> j < length cs \<longrightarrow> Type (cs ! j) \<noteq> t) \<Longrightarrow>
   GetPodConditionFromList_loop cs i t = (-1, None)"
proof (induction cs i t rule: GetPodConditionFromList_loop.induct)
  case (1 conditions i conditionType)
  show ?case
  proof (cases "i < length conditions")
    case True
    with "1.prems" have ne: "Type (conditions ! i) \<noteq> conditionType" by simp
    have "GetPodConditionFromList_loop conditions (Suc i) conditionType = (-1, None)"
      using "1.IH" [OF True ne] "1.prems" by simp
    with True ne show ?thesis
      by (subst GetPodConditionFromList_loop.simps) simp
  next
    case False
    then show ?thesis
      by (subst GetPodConditionFromList_loop.simps) simp
  qed
qed

lemma GetPodConditionFromList_found:
  assumes "k < length cs" "Type (cs ! k) = t" "\<forall>j<k. Type (cs ! j) \<noteq> t"
  shows "GetPodConditionFromList (Some cs) t = (int k, Some (cs ! k))"
  using assms GetPodConditionFromList_loop_found [of 0 k cs t] by (simp add: GetPodConditionFromList_def)

lemma GetPodConditionFromList_not_found:
  assumes "\<forall>c \<in> set cs. Type c \<noteq> t"
  shows "GetPodConditionFromList (Some cs) t = (-1, None)"
  using assms GetPodConditionFromList_loop_not_found [of 0 cs t] by (simp add: GetPodConditionFromList_def)

lemma find_type_Some:
  assumes "List.find (\<lambda>c. Type c = t) cs = Some c"
  obtains k where "k < length cs" "Type (cs ! k) = t" "c = cs ! k"
    "\<forall>j<k. Type (cs ! j) \<noteq> t"
proof -
  from assms have "\<exists>k<length cs. Type (cs ! k) = t \<and> c = cs ! k \<and> (\<forall>j<k. Type (cs ! j) \<noteq> t)"
    by (simp only: find_Some_iff)
  then show thesis using that by auto
qed

lemma GetPodConditionFromList_find:
  "snd (GetPodConditionFromList conditions t) = List.find (\<lambda>c. Type c = t) (elems conditions)"
proof (cases conditions)
  case None
  then show ?thesis by (simp add: GetPodConditionFromList_def elems_def)
next
  case (Some cs)
  show ?thesis
  proof (cases "List.find (\<lambda>c. Type c = t) cs")
    case None
    then have "\<forall>c \<in> set cs. Type c \<noteq> t" by (simp add: find_None_iff)
    from GetPodConditionFromList_not_found [OF this] None Some show ?thesis by (simp add: elems_def)
  next
    case (Some c)
    then obtain k where "k < length cs" "Type (cs ! k) = t" "c = cs ! k"
      "\<forall>j<k. Type (cs ! j) \<noteq> t"
      by (rule find_type_Some)
    with GetPodConditionFromList_found [of k cs t] Some \<open>conditions = Some cs\<close> show ?thesis
      by (simp add: elems_def)
  qed
qed

lemma GetPodReadyCondition_find:
  "GetPodReadyCondition status = List.find (\<lambda>c. Type c = PodReady) (elems (Conditions status))"
  by (simp add: GetPodReadyCondition_def GetPodCondition_def GetPodConditionFromList_find)

lemma find_filter_hd:
  "List.find P xs = (case filter P xs of [] \<Rightarrow> None | x # _ \<Rightarrow> Some x)"
  by (induction xs) auto

lemma GetPodConditionFromList_same_positions:
  assumes len: "length cs = length ds"
    and same: "\<forall>i<length cs. Type (cs ! i) = t \<or> Type (ds ! i) = t \<longrightarrow> cs ! i = ds ! i"
  shows "GetPodConditionFromList (Some cs) t = GetPodConditionFromList (Some ds) t"
proof -
  have pos: "Type (cs ! i) = t \<longleftrightarrow> Type (ds ! i) = t" if "i < length cs" for i
  proof
    assume "Type (cs ! i) = t"
    with same that have "cs ! i = ds ! i" by blast
    with \<open>Type (cs ! i) = t\<close> show "Type (ds ! i) = t" by simp
  next
    assume "Type (ds ! i) = t"
    with same that have "cs ! i = ds ! i" by blast
    with \<open>Type (ds ! i) = t\<close> show "Type (cs ! i) = t" by simp
  qed
  show ?thesis
  proof (cases "List.find (\<lambda>c. Type c = t) cs")
    case None
    then have a: "\<forall>c \<in> set cs. Type c \<noteq> t" by (simp add: find_None_iff)
    have b: "\<forall>c \<in> set ds. Type c \<noteq> t"
    proof
      fix c assume "c \<in> set ds"
      then obtain i where i: "i < length ds" "c = ds ! i" by (auto simp: in_set_conv_nth)
      with len have "cs ! i \<in> set cs" by simp
      with a have "Type (cs ! i) \<noteq> t" by blast
      with pos [of i] i len show "Type c \<noteq> t" by simp
    qed
    from GetPodConditionFromList_not_found [OF a] GetPodConditionFromList_not_found [OF b] show ?thesis by simp
  next
    case (Some c)
    then obtain k where k: "k < length cs" "Type (cs ! k) = t"
      and least: "\<forall>j<k. Type (cs ! j) \<noteq> t"
      by (rule find_type_Some)
    from k same have eq: "cs ! k = ds ! k" by blast
    from k eq len have kd: "k < length ds" "Type (ds ! k) = t" by simp_all
    have least': "\<forall>j<k. Type (ds ! j) \<noteq> t"
    proof (intro allI impI)
      fix j assume "j < k"
      with k have "j < length cs" by simp
      from pos [OF this] least \<open>j < k\<close> show "Type (ds ! j) \<noteq> t" by simp
    qed
    from GetPodConditionFromList_found [OF k least] GetPodConditionFromList_found [OF kd least'] eq show ?thesis by simp
  qed
qed

text \<open>The predicates on a pod that is there, with the guards of the code resolved.\<close>

lemma Time_zero_iff: "(t = Time 0 0) = IsZero t"
  by (cases t) (simp add: IsZero_def)

lemma IsPodAvailable_unfold:
  "IsPodAvailable (Some pod) s now =
     Inr (case GetPodReadyCondition (Pod_Status pod) of
            None \<Rightarrow> False
          | Some c \<Rightarrow> Status c = ConditionTrue \<and>
              (s = 0 \<or> \<not> IsZero (LastTransitionTime c) \<and>
                 Before (Add (LastTransitionTime c) ((scast s :: Duration) * Second)) now))"
  by (simp add: IsPodAvailable_def IsPodReady_def IsPodReadyConditionTrue_def Let_def
      split: option.split)

lemma IsPodReady_unfold:
  "IsPodReady (Some pod) =
     Inr (case GetPodReadyCondition (Pod_Status pod) of
            None \<Rightarrow> False
          | Some c \<Rightarrow> Status c = ConditionTrue)"
  by (simp add: IsPodReady_def IsPodReadyConditionTrue_def)

lemmas eval_lookup =
  GetPodReadyCondition_def GetPodCondition_def GetPodConditionFromList_def
  GetPodConditionFromList_loop.simps PodReady_def ConditionTrue_def

lemmas eval_available =
  IsPodAvailable_def IsPodReady_def IsPodReadyConditionTrue_def IsZero_def Before_def Add_def
  addSec_def quo_def rem_def Second_def instant_def

text \<open>The two loops over values answer whether some element passes the test.\<close>

lemma IsPodInCrashloopBackoff_loop_iff:
  "IsPodInCrashloopBackoff_loop xs = (\<exists>x \<in> set xs. IsContainerInCrashLoopBackOff (State x))"
  by (induction xs) auto

lemma IsReadyEndpointPresentInSubsets_loop_iff:
  "IsReadyEndpointPresentInSubsets_loop xs = (\<exists>x \<in> set xs. elems (Addresses x) \<noteq> [])"
  by (induction xs) (auto simp: len_def)

lemmas eval_crashloop =
  ShouldDeletePod_def IsPodDeleted_def IsPodInCrashloopBackoff_def
  IsContainerInCrashLoopBackOff_def CrashLoopBackOff_def elems_def

section \<open>Availability\<close>

text \<open>
  Claim C1, as amended. Take a pod, a \<open>minReadySeconds\<close> \<open>s\<close> and a time \<open>now\<close> such that the
  nanoseconds of \<open>now\<close> and of the Ready condition's \<^verbatim>\<open>LastTransitionTime\<close> lie within
  one second, as in every time the library builds, and such that the seconds of
  \<^verbatim>\<open>LastTransitionTime\<close> plus \<open>s\<close> stay within 64 bits. Then \<^verbatim>\<open>IsPodAvailable\<close> returns
  true if and only if \<^verbatim>\<open>IsPodReady\<close> is true and either \<open>s = 0\<close>, or
  \<^verbatim>\<open>LastTransitionTime\<close> is non-zero and that instant plus \<open>s\<close> seconds is strictly earlier
  than \<open>now\<close>; and when \<open>s\<close> is not 0 and \<open>now\<close> equals \<^verbatim>\<open>LastTransitionTime\<close> plus \<open>s\<close>
  seconds exactly, the result is false. For every pod, \<open>s\<close> and \<open>now\<close>, with no condition
  on the times: when the pod is not ready the result is false, whatever the soak-time
  clauses would give (they are not evaluated: no nil condition is dereferenced).
\<close>

theorem IsPodAvailable_iff:
  "((case GetPodReadyCondition (Pod_Status pod) of
       None \<Rightarrow> True
     | Some c \<Rightarrow>
         0 \<le> sint (nsec (LastTransitionTime c)) \<and>
         sint (nsec (LastTransitionTime c)) < 1000000000 \<and>
         - (2 ^ 63) \<le> sint (sec (LastTransitionTime c)) + sint s \<and>
         sint (sec (LastTransitionTime c)) + sint s < 2 ^ 63) \<and>
    0 \<le> sint (nsec now) \<and> sint (nsec now) < 1000000000 \<longrightarrow>
      IsPodAvailable (Some pod) s now =
        Inr (IsPodReady (Some pod) = Inr True \<and>
             (s = 0 \<or>
              (\<exists>c. GetPodReadyCondition (Pod_Status pod) = Some c \<and>
                   LastTransitionTime c \<noteq> Time 0 0 \<and>
                   instant (LastTransitionTime c) + sint s * 1000000000 < instant now))) \<and>
      (s \<noteq> 0 \<and> GetPodReadyCondition (Pod_Status pod) = Some c' \<and>
       instant now = instant (LastTransitionTime c') + sint s * 1000000000 \<longrightarrow>
         IsPodAvailable (Some pod) s now = Inr False)) \<and>
   (IsPodReady (Some pod) = Inr False \<longrightarrow> IsPodAvailable (Some pod) s now = Inr False)"
proof (intro conjI impI)
  assume "IsPodReady (Some pod) = Inr False"
  then show "IsPodAvailable (Some pod) s now = Inr False"
    by (auto simp: IsPodAvailable_unfold IsPodReady_unfold split: option.splits)
next
  assume hyp: "(case GetPodReadyCondition (Pod_Status pod) of
       None \<Rightarrow> True
     | Some c \<Rightarrow>
         0 \<le> sint (nsec (LastTransitionTime c)) \<and>
         sint (nsec (LastTransitionTime c)) < 1000000000 \<and>
         - (2 ^ 63) \<le> sint (sec (LastTransitionTime c)) + sint s \<and>
         sint (sec (LastTransitionTime c)) + sint s < 2 ^ 63) \<and>
    0 \<le> sint (nsec now) \<and> sint (nsec now) < 1000000000"
  have soak: "Before (Add (LastTransitionTime c) ((scast s :: Duration) * Second)) now =
      (instant (LastTransitionTime c) + sint s * 1000000000 < instant now)"
    if "GetPodReadyCondition (Pod_Status pod) = Some c" for c
    using hyp that by (intro Before_Add_seconds) simp_all
  show "IsPodAvailable (Some pod) s now =
        Inr (IsPodReady (Some pod) = Inr True \<and>
             (s = 0 \<or>
              (\<exists>c. GetPodReadyCondition (Pod_Status pod) = Some c \<and>
                   LastTransitionTime c \<noteq> Time 0 0 \<and>
                   instant (LastTransitionTime c) + sint s * 1000000000 < instant now)))"
  proof (cases "GetPodReadyCondition (Pod_Status pod)")
    case None
    then show ?thesis by (simp add: IsPodAvailable_unfold IsPodReady_unfold)
  next
    case (Some c)
    with soak [OF Some] show ?thesis
      by (auto simp: IsPodAvailable_unfold IsPodReady_unfold Time_zero_iff)
  qed
  show "IsPodAvailable (Some pod) s now = Inr False"
    if "s \<noteq> 0 \<and> GetPodReadyCondition (Pod_Status pod) = Some c' \<and>
       instant now = instant (LastTransitionTime c') + sint s * 1000000000"
    using that soak [of c'] by (simp add: IsPodAvailable_unfold)
qed

text \<open>
  The theorem at a ready pod whose Ready condition changed at second 1, with a soak time
  of 30 seconds: available at second 40, not available at second 31 exactly; and at a pod
  with no Ready condition: not ready and not available.
\<close>

theorem IsPodAvailable_iff_witness:
  "GetPodReadyCondition (Pod_Status (\<lparr>DeletionTimestamp = None, Pod_Status = \<lparr>Conditions = Some [\<lparr>Type = ''Ready'', Status = ''True'', LastTransitionTime = Time 1 0\<rparr>], ContainerStatuses = None\<rparr>\<rparr>)) = Some (\<lparr>Type = ''Ready'', Status = ''True'', LastTransitionTime = Time 1 0\<rparr>) \<and>
   0 \<le> sint (nsec (Time 1 0)) \<and> sint (nsec (Time 1 0)) < 1000000000 \<and>
   - (2 ^ 63) \<le> sint (sec (Time 1 0)) + sint (30 :: 32 word) \<and>
   sint (sec (Time 1 0)) + sint (30 :: 32 word) < 2 ^ 63 \<and>
   0 \<le> sint (nsec (Time 40 0)) \<and> sint (nsec (Time 40 0)) < 1000000000 \<and>
   0 \<le> sint (nsec (Time 31 0)) \<and> sint (nsec (Time 31 0)) < 1000000000 \<and>
   IsPodReady (Some (\<lparr>DeletionTimestamp = None, Pod_Status = \<lparr>Conditions = Some [\<lparr>Type = ''Ready'', Status = ''True'', LastTransitionTime = Time 1 0\<rparr>], ContainerStatuses = None\<rparr>\<rparr>)) = Inr True \<and>
   IsPodAvailable (Some (\<lparr>DeletionTimestamp = None, Pod_Status = \<lparr>Conditions = Some [\<lparr>Type = ''Ready'', Status = ''True'', LastTransitionTime = Time 1 0\<rparr>], ContainerStatuses = None\<rparr>\<rparr>)) 30 (Time 40 0) = Inr True \<and>
   instant (Time 31 0) = instant (LastTransitionTime (\<lparr>Type = ''Ready'', Status = ''True'', LastTransitionTime = Time 1 0\<rparr>)) + sint (30 :: 32 word) * 1000000000 \<and>
   IsPodAvailable (Some (\<lparr>DeletionTimestamp = None, Pod_Status = \<lparr>Conditions = Some [\<lparr>Type = ''Ready'', Status = ''True'', LastTransitionTime = Time 1 0\<rparr>], ContainerStatuses = None\<rparr>\<rparr>)) 30 (Time 31 0) = Inr False \<and>
   IsPodReady (Some (\<lparr>DeletionTimestamp = None, Pod_Status = \<lparr>Conditions = Some [\<lparr>Type = ''Initialized'', Status = ''True'', LastTransitionTime = Time 1 0\<rparr>], ContainerStatuses = None\<rparr>\<rparr>)) = Inr False \<and>
   IsPodAvailable (Some (\<lparr>DeletionTimestamp = None, Pod_Status = \<lparr>Conditions = Some [\<lparr>Type = ''Initialized'', Status = ''True'', LastTransitionTime = Time 1 0\<rparr>], ContainerStatuses = None\<rparr>\<rparr>)) 30 (Time 40 0) = Inr False"
proof -
  let ?P = "\<lparr>DeletionTimestamp = None, Pod_Status = \<lparr>Conditions = Some [\<lparr>Type = ''Ready'', Status = ''True'', LastTransitionTime = Time 1 0\<rparr>], ContainerStatuses = None\<rparr>\<rparr>"
  let ?C = "\<lparr>Type = ''Ready'', Status = ''True'', LastTransitionTime = Time 1 0\<rparr>"
  let ?Q = "\<lparr>DeletionTimestamp = None, Pod_Status = \<lparr>Conditions = Some [\<lparr>Type = ''Initialized'', Status = ''True'', LastTransitionTime = Time 1 0\<rparr>], ContainerStatuses = None\<rparr>\<rparr>"
  have c: "GetPodReadyCondition (Pod_Status ?P) = Some ?C"
    by (simp add: eval_lookup)
  have ready: "IsPodReady (Some ?P) = Inr True"
    by (simp add: IsPodReady_def IsPodReadyConditionTrue_def eval_lookup)
  have not_ready: "IsPodReady (Some ?Q) = Inr False"
    by (simp add: IsPodReady_def IsPodReadyConditionTrue_def eval_lookup)
  have at31: "instant (Time 31 0) = instant (LastTransitionTime ?C) + sint (30 :: 32 word) * 1000000000"
    by (simp add: instant_def)
  have r40: "IsPodAvailable (Some ?P) 30 (Time 40 0) = Inr True"
    using IsPodAvailable_iff [where pod = "?P" and s = 30 and now = "Time 40 0" and c' = "?C"] c ready by (simp add: instant_def)
  have r31: "IsPodAvailable (Some ?P) 30 (Time 31 0) = Inr False"
    using IsPodAvailable_iff [where pod = "?P" and s = 30 and now = "Time 31 0" and c' = "?C"] c at31 by simp
  have rq: "IsPodAvailable (Some ?Q) 30 (Time 40 0) = Inr False"
    using IsPodAvailable_iff [where pod = "?Q" and s = 30 and now = "Time 40 0" and c' = "?C"] not_ready by simp
  from c ready not_ready at31 r40 r31 rq show ?thesis by simp
qed

text \<open>
  Claim C1 as stated fails in two ways. It says that the result is false whenever \<open>now\<close>
  equals \<^verbatim>\<open>LastTransitionTime\<close> plus \<open>s\<close> seconds: with \<open>s = 0\<close> and a ready pod the first
  disjunct \<^verbatim>\<open>minReadySeconds == 0\<close> answers true at that very instant. And it says that the
  result is true only if \<^verbatim>\<open>LastTransitionTime\<close> plus \<open>s\<close> seconds is earlier than \<open>now\<close>: for
  a \<^verbatim>\<open>LastTransitionTime\<close> 10 seconds below the last second that 64 bits hold and
  \<open>s = 30\<close>, the library's sum saturates at that last second, which is before a \<open>now\<close> 5
  nanoseconds into it, so the result is true although the instant 30 seconds after
  \<^verbatim>\<open>LastTransitionTime\<close> is later than \<open>now\<close>.
\<close>

theorem IsPodAvailable_boundary_counterexample:
  "IsPodReady (Some (\<lparr>DeletionTimestamp = None, Pod_Status = \<lparr>Conditions = Some [\<lparr>Type = ''Ready'', Status = ''True'', LastTransitionTime = Time 1 0\<rparr>], ContainerStatuses = None\<rparr>\<rparr>)) = Inr True \<and>
   GetPodReadyCondition (Pod_Status (\<lparr>DeletionTimestamp = None, Pod_Status = \<lparr>Conditions = Some [\<lparr>Type = ''Ready'', Status = ''True'', LastTransitionTime = Time 1 0\<rparr>], ContainerStatuses = None\<rparr>\<rparr>)) = Some (\<lparr>Type = ''Ready'', Status = ''True'', LastTransitionTime = Time 1 0\<rparr>) \<and>
   instant (Time 1 0) = instant (LastTransitionTime (\<lparr>Type = ''Ready'', Status = ''True'', LastTransitionTime = Time 1 0\<rparr>)) + sint (0 :: 32 word) * 1000000000 \<and>
   IsPodAvailable (Some (\<lparr>DeletionTimestamp = None, Pod_Status = \<lparr>Conditions = Some [\<lparr>Type = ''Ready'', Status = ''True'', LastTransitionTime = Time 1 0\<rparr>], ContainerStatuses = None\<rparr>\<rparr>)) 0 (Time 1 0) = Inr True \<and>
   GetPodReadyCondition (Pod_Status (\<lparr>DeletionTimestamp = None, Pod_Status = \<lparr>Conditions = Some [\<lparr>Type = ''Ready'', Status = ''True'', LastTransitionTime = Time 9223372036854775797 0\<rparr>], ContainerStatuses = None\<rparr>\<rparr>)) = Some (\<lparr>Type = ''Ready'', Status = ''True'', LastTransitionTime = Time 9223372036854775797 0\<rparr>) \<and>
   \<not> (instant (LastTransitionTime (\<lparr>Type = ''Ready'', Status = ''True'', LastTransitionTime = Time 9223372036854775797 0\<rparr>)) + sint (30 :: 32 word) * 1000000000 <
        instant (Time 9223372036854775807 5)) \<and>
   IsPodAvailable (Some (\<lparr>DeletionTimestamp = None, Pod_Status = \<lparr>Conditions = Some [\<lparr>Type = ''Ready'', Status = ''True'', LastTransitionTime = Time 9223372036854775797 0\<rparr>], ContainerStatuses = None\<rparr>\<rparr>)) 30 (Time 9223372036854775807 5) = Inr True"
  by (simp add: eval_lookup eval_available)

text \<open>
  Claim C2. For every pod whose Ready condition has status True and a zero
  \<^verbatim>\<open>LastTransitionTime\<close>, and every time \<open>now\<close>: \<^verbatim>\<open>IsPodAvailable\<close> is true for
  \<open>minReadySeconds = 0\<close> and false for every \<open>minReadySeconds > 0\<close>, for example 30.
\<close>

theorem IsPodAvailable_zero_LastTransitionTime:
  assumes "GetPodReadyCondition (Pod_Status pod) = Some c"
    and "Status c = ''True''"
    and "LastTransitionTime c = Time 0 0"
  shows "IsPodAvailable (Some pod) 0 now = Inr True \<and>
         (0 < sint s \<longrightarrow> IsPodAvailable (Some pod) s now = Inr False) \<and>
         IsPodAvailable (Some pod) 30 now = Inr False"
  using assms by (auto simp: IsPodAvailable_unfold ConditionTrue_def IsZero_def)

text \<open>
  The theorem at a pod whose only condition is Ready, True, with the zero time.
\<close>

theorem IsPodAvailable_zero_LastTransitionTime_witness:
  "GetPodReadyCondition (Pod_Status (\<lparr>DeletionTimestamp = None, Pod_Status = \<lparr>Conditions = Some [\<lparr>Type = ''Ready'', Status = ''True'', LastTransitionTime = Time 0 0\<rparr>], ContainerStatuses = None\<rparr>\<rparr>)) = Some (\<lparr>Type = ''Ready'', Status = ''True'', LastTransitionTime = Time 0 0\<rparr>) \<and>
   IsPodAvailable (Some (\<lparr>DeletionTimestamp = None, Pod_Status = \<lparr>Conditions = Some [\<lparr>Type = ''Ready'', Status = ''True'', LastTransitionTime = Time 0 0\<rparr>], ContainerStatuses = None\<rparr>\<rparr>)) 0 (Time 40 0) = Inr True \<and>
   0 < sint (7 :: 32 word) \<and>
   IsPodAvailable (Some (\<lparr>DeletionTimestamp = None, Pod_Status = \<lparr>Conditions = Some [\<lparr>Type = ''Ready'', Status = ''True'', LastTransitionTime = Time 0 0\<rparr>], ContainerStatuses = None\<rparr>\<rparr>)) 7 (Time 40 0) = Inr False \<and>
   IsPodAvailable (Some (\<lparr>DeletionTimestamp = None, Pod_Status = \<lparr>Conditions = Some [\<lparr>Type = ''Ready'', Status = ''True'', LastTransitionTime = Time 0 0\<rparr>], ContainerStatuses = None\<rparr>\<rparr>)) 30 (Time 40 0) = Inr False"
proof -
  have c: "GetPodReadyCondition (Pod_Status (\<lparr>DeletionTimestamp = None, Pod_Status = \<lparr>Conditions = Some [\<lparr>Type = ''Ready'', Status = ''True'', LastTransitionTime = Time 0 0\<rparr>], ContainerStatuses = None\<rparr>\<rparr>)) = Some (\<lparr>Type = ''Ready'', Status = ''True'', LastTransitionTime = Time 0 0\<rparr>)"
    by (simp add: eval_lookup)
  from IsPodAvailable_zero_LastTransitionTime [OF c, of "Time 40 0" 7] c
  show ?thesis by simp
qed

section \<open>Readiness\<close>

text \<open>
  Claim C3. For every pod whose conditions hold no condition of type Ready (a nil or an
  empty list included), \<^verbatim>\<open>IsPodReady\<close> is false and \<^verbatim>\<open>IsPodAvailable\<close> is false for every
  \<open>minReadySeconds\<close> and every \<open>now\<close>. \<^verbatim>\<open>IsPodReady\<close> is true exactly when a condition of
  type Ready exists and the status of the first such condition, the one the lookup
  returns, is True.
\<close>

theorem IsPodReady_iff_Ready_condition:
  "((\<forall>c \<in> set (elems (Conditions (Pod_Status pod))). Type c \<noteq> ''Ready'') \<longrightarrow>
      IsPodReady (Some pod) = Inr False \<and> IsPodAvailable (Some pod) s now = Inr False) \<and>
   IsPodReady (Some pod') =
     Inr (\<exists>c. List.find (\<lambda>c. Type c = ''Ready'') (elems (Conditions (Pod_Status pod'))) = Some c \<and>
              Status c = ''True'')"
proof -
  have "IsPodReady (Some pod) = Inr False \<and> IsPodAvailable (Some pod) s now = Inr False"
    if "\<forall>c \<in> set (elems (Conditions (Pod_Status pod))). Type c \<noteq> ''Ready''"
  proof -
    from that have "GetPodReadyCondition (Pod_Status pod) = None"
      by (simp add: GetPodReadyCondition_find PodReady_def find_None_iff)
    then show ?thesis by (simp add: IsPodAvailable_unfold IsPodReady_unfold)
  qed
  moreover have "IsPodReady (Some pod') =
     Inr (\<exists>c. List.find (\<lambda>c. Type c = ''Ready'') (elems (Conditions (Pod_Status pod'))) = Some c \<and>
              Status c = ''True'')"
    by (simp add: IsPodReady_unfold GetPodReadyCondition_find PodReady_def ConditionTrue_def
        split: option.split)
  ultimately show ?thesis by blast
qed

text \<open>
  The theorem at a pod with the single condition Initialized, and at a pod with the
  single condition Ready, True.
\<close>

theorem IsPodReady_iff_Ready_condition_witness:
  "list_all (\<lambda>c. Type c \<noteq> ''Ready'') (elems (Conditions (Pod_Status (\<lparr>DeletionTimestamp = None, Pod_Status = \<lparr>Conditions = Some [\<lparr>Type = ''Initialized'', Status = ''True'', LastTransitionTime = Time 1 0\<rparr>], ContainerStatuses = None\<rparr>\<rparr>)))) \<and>
   IsPodReady (Some (\<lparr>DeletionTimestamp = None, Pod_Status = \<lparr>Conditions = Some [\<lparr>Type = ''Initialized'', Status = ''True'', LastTransitionTime = Time 1 0\<rparr>], ContainerStatuses = None\<rparr>\<rparr>)) = Inr False \<and>
   IsPodAvailable (Some (\<lparr>DeletionTimestamp = None, Pod_Status = \<lparr>Conditions = Some [\<lparr>Type = ''Initialized'', Status = ''True'', LastTransitionTime = Time 1 0\<rparr>], ContainerStatuses = None\<rparr>\<rparr>)) 0 (Time 40 0) = Inr False \<and>
   IsPodReady (Some (\<lparr>DeletionTimestamp = None, Pod_Status = \<lparr>Conditions = Some [\<lparr>Type = ''Ready'', Status = ''True'', LastTransitionTime = Time 1 0\<rparr>], ContainerStatuses = None\<rparr>\<rparr>)) = Inr True"
  using IsPodReady_iff_Ready_condition [of "\<lparr>DeletionTimestamp = None, Pod_Status = \<lparr>Conditions = Some [\<lparr>Type = ''Initialized'', Status = ''True'', LastTransitionTime = Time 1 0\<rparr>], ContainerStatuses = None\<rparr>\<rparr>" 0 "Time 40 0" "\<lparr>DeletionTimestamp = None, Pod_Status = \<lparr>Conditions = Some [\<lparr>Type = ''Ready'', Status = ''True'', LastTransitionTime = Time 1 0\<rparr>], ContainerStatuses = None\<rparr>\<rparr>"]
  by (simp add: elems_def)

section \<open>First match wins\<close>

text \<open>
  Claim C6. \<^verbatim>\<open>GetPodConditionFromList\<close> returns the sentinel \<open>(-1, nil)\<close> for the nil list,
  the empty list and a list with no entry of the requested type; otherwise it returns the
  least index whose entry has the requested type, with that entry, so the earliest of
  several entries of one type wins. The entry returned depends only on the entries of the
  requested type and their order: lists that agree on them return the same entry. When
  the entries of the requested type also keep their places, whatever the other entries
  are and in whatever order, the index is the same too.
\<close>

theorem GetPodConditionFromList_first_match:
  "GetPodConditionFromList None t = (-1, None) \<and>
   GetPodConditionFromList (Some []) t = (-1, None) \<and>
   ((\<forall>c \<in> set cs0. Type c \<noteq> t) \<longrightarrow> GetPodConditionFromList (Some cs0) t = (-1, None)) \<and>
   (k < length cs \<and> Type (cs ! k) = t \<and> (\<forall>j<k. Type (cs ! j) \<noteq> t) \<longrightarrow>
      GetPodConditionFromList (Some cs) t = (int k, Some (cs ! k))) \<and>
   snd (GetPodConditionFromList conditions t) =
     List.find (\<lambda>c. Type c = t) (elems conditions) \<and>
   (filter (\<lambda>c. Type c = t) xs = filter (\<lambda>c. Type c = t) ys \<longrightarrow>
      snd (GetPodConditionFromList (Some xs) t) = snd (GetPodConditionFromList (Some ys) t)) \<and>
   (length xs' = length ys' \<and>
    (\<forall>i<length xs'. Type (xs' ! i) = t \<or> Type (ys' ! i) = t \<longrightarrow> xs' ! i = ys' ! i) \<longrightarrow>
      GetPodConditionFromList (Some xs') t = GetPodConditionFromList (Some ys') t)"
proof (intro conjI impI)
  show "GetPodConditionFromList None t = (-1, None)"
    by (simp add: GetPodConditionFromList_def)
  show "GetPodConditionFromList (Some []) t = (-1, None)"
    by (simp add: GetPodConditionFromList_not_found)
  show "GetPodConditionFromList (Some cs0) t = (-1, None)" if "\<forall>c \<in> set cs0. Type c \<noteq> t"
    using that by (rule GetPodConditionFromList_not_found)
  show "GetPodConditionFromList (Some cs) t = (int k, Some (cs ! k))"
    if "k < length cs \<and> Type (cs ! k) = t \<and> (\<forall>j<k. Type (cs ! j) \<noteq> t)"
    using that by (simp add: GetPodConditionFromList_found)
  show "snd (GetPodConditionFromList conditions t) =
     List.find (\<lambda>c. Type c = t) (elems conditions)"
    by (rule GetPodConditionFromList_find)
  show "snd (GetPodConditionFromList (Some xs) t) = snd (GetPodConditionFromList (Some ys) t)"
    if "filter (\<lambda>c. Type c = t) xs = filter (\<lambda>c. Type c = t) ys"
    using that by (simp add: GetPodConditionFromList_find elems_def find_filter_hd)
  show "GetPodConditionFromList (Some xs') t = GetPodConditionFromList (Some ys') t"
    if "length xs' = length ys' \<and>
      (\<forall>i<length xs'. Type (xs' ! i) = t \<or> Type (ys' ! i) = t \<longrightarrow> xs' ! i = ys' ! i)"
    by (rule GetPodConditionFromList_same_positions [OF that [THEN conjunct1] that [THEN conjunct2]])
qed

text \<open>
  The theorem at lists over the conditions Initialized, PodScheduled and two Ready
  conditions, the first with status False, the second with status True.
\<close>

theorem GetPodConditionFromList_first_match_witness:
  "list_all (\<lambda>c. Type c \<noteq> ''Ready'') [\<lparr>Type = ''Initialized'', Status = ''True'', LastTransitionTime = Time 5 0\<rparr>, \<lparr>Type = ''PodScheduled'', Status = ''True'', LastTransitionTime = Time 8 0\<rparr>] \<and>
   GetPodConditionFromList (Some [\<lparr>Type = ''Initialized'', Status = ''True'', LastTransitionTime = Time 5 0\<rparr>, \<lparr>Type = ''PodScheduled'', Status = ''True'', LastTransitionTime = Time 8 0\<rparr>]) ''Ready'' = (-1, None) \<and>
   Type ([\<lparr>Type = ''Initialized'', Status = ''True'', LastTransitionTime = Time 5 0\<rparr>, \<lparr>Type = ''Ready'', Status = ''False'', LastTransitionTime = Time 6 0\<rparr>, \<lparr>Type = ''Ready'', Status = ''True'', LastTransitionTime = Time 7 0\<rparr>] ! 1) = ''Ready'' \<and>
   Type ([\<lparr>Type = ''Initialized'', Status = ''True'', LastTransitionTime = Time 5 0\<rparr>, \<lparr>Type = ''Ready'', Status = ''False'', LastTransitionTime = Time 6 0\<rparr>, \<lparr>Type = ''Ready'', Status = ''True'', LastTransitionTime = Time 7 0\<rparr>] ! 0) \<noteq> ''Ready'' \<and>
   GetPodConditionFromList (Some [\<lparr>Type = ''Initialized'', Status = ''True'', LastTransitionTime = Time 5 0\<rparr>, \<lparr>Type = ''Ready'', Status = ''False'', LastTransitionTime = Time 6 0\<rparr>, \<lparr>Type = ''Ready'', Status = ''True'', LastTransitionTime = Time 7 0\<rparr>]) ''Ready'' = (1, Some (\<lparr>Type = ''Ready'', Status = ''False'', LastTransitionTime = Time 6 0\<rparr>)) \<and>
   filter (\<lambda>c. Type c = ''Ready'') [\<lparr>Type = ''Initialized'', Status = ''True'', LastTransitionTime = Time 5 0\<rparr>, \<lparr>Type = ''Ready'', Status = ''False'', LastTransitionTime = Time 6 0\<rparr>, \<lparr>Type = ''Ready'', Status = ''True'', LastTransitionTime = Time 7 0\<rparr>] =
     filter (\<lambda>c. Type c = ''Ready'') [\<lparr>Type = ''Ready'', Status = ''False'', LastTransitionTime = Time 6 0\<rparr>, \<lparr>Type = ''PodScheduled'', Status = ''True'', LastTransitionTime = Time 8 0\<rparr>, \<lparr>Type = ''Ready'', Status = ''True'', LastTransitionTime = Time 7 0\<rparr>, \<lparr>Type = ''Initialized'', Status = ''True'', LastTransitionTime = Time 5 0\<rparr>] \<and>
   snd (GetPodConditionFromList (Some [\<lparr>Type = ''Ready'', Status = ''False'', LastTransitionTime = Time 6 0\<rparr>, \<lparr>Type = ''PodScheduled'', Status = ''True'', LastTransitionTime = Time 8 0\<rparr>, \<lparr>Type = ''Ready'', Status = ''True'', LastTransitionTime = Time 7 0\<rparr>, \<lparr>Type = ''Initialized'', Status = ''True'', LastTransitionTime = Time 5 0\<rparr>]) ''Ready'') = Some (\<lparr>Type = ''Ready'', Status = ''False'', LastTransitionTime = Time 6 0\<rparr>) \<and>
   GetPodConditionFromList (Some [\<lparr>Type = ''PodScheduled'', Status = ''True'', LastTransitionTime = Time 8 0\<rparr>, \<lparr>Type = ''Ready'', Status = ''False'', LastTransitionTime = Time 6 0\<rparr>, \<lparr>Type = ''Ready'', Status = ''True'', LastTransitionTime = Time 7 0\<rparr>]) ''Ready'' = (1, Some (\<lparr>Type = ''Ready'', Status = ''False'', LastTransitionTime = Time 6 0\<rparr>))"
proof -
  let ?A = "\<lparr>Type = ''Initialized'', Status = ''True'', LastTransitionTime = Time 5 0\<rparr>"
  let ?B = "\<lparr>Type = ''PodScheduled'', Status = ''True'', LastTransitionTime = Time 8 0\<rparr>"
  let ?R1 = "\<lparr>Type = ''Ready'', Status = ''False'', LastTransitionTime = Time 6 0\<rparr>"
  let ?R2 = "\<lparr>Type = ''Ready'', Status = ''True'', LastTransitionTime = Time 7 0\<rparr>"
  have none: "\<forall>c \<in> set [?A, ?B]. Type c \<noteq> ''Ready''" by simp
  have first: "(1::nat) < length [?A, ?R1, ?R2] \<and> Type ([?A, ?R1, ?R2] ! 1) = ''Ready'' \<and>
      (\<forall>j<1. Type ([?A, ?R1, ?R2] ! j) \<noteq> ''Ready'')" by simp
  have same_filter: "filter (\<lambda>c. Type c = ''Ready'') [?A, ?R1, ?R2] =
      filter (\<lambda>c. Type c = ''Ready'') [?R1, ?B, ?R2, ?A]" by simp
  have same_pos: "length [?A, ?R1, ?R2] = length [?B, ?R1, ?R2] \<and>
      (\<forall>i<length [?A, ?R1, ?R2].
          Type ([?A, ?R1, ?R2] ! i) = ''Ready'' \<or> Type ([?B, ?R1, ?R2] ! i) = ''Ready'' \<longrightarrow>
          [?A, ?R1, ?R2] ! i = [?B, ?R1, ?R2] ! i)"
    by (simp add: nth_Cons' numeral_3_eq_3 less_Suc_eq)
  note inst = GetPodConditionFromList_first_match
    [of "''Ready''" "[?A, ?B]" 1 "[?A, ?R1, ?R2]" None "[?A, ?R1, ?R2]" "[?R1, ?B, ?R2, ?A]"
      "[?A, ?R1, ?R2]" "[?B, ?R1, ?R2]"]
  note c3 = inst [THEN conjunct2, THEN conjunct2, THEN conjunct1]
  note c4 = inst [THEN conjunct2, THEN conjunct2, THEN conjunct2, THEN conjunct1]
  note c6 = inst [THEN conjunct2, THEN conjunct2, THEN conjunct2, THEN conjunct2, THEN conjunct2,
      THEN conjunct1]
  note c7 = inst [THEN conjunct2, THEN conjunct2, THEN conjunct2, THEN conjunct2, THEN conjunct2,
      THEN conjunct2]
  have r1: "GetPodConditionFromList (Some [?A, ?B]) ''Ready'' = (-1, None)"
    by (rule c3 [THEN mp, OF none])
  have r2: "GetPodConditionFromList (Some [?A, ?R1, ?R2]) ''Ready'' =
      (int 1, Some ([?A, ?R1, ?R2] ! 1))"
    by (rule c4 [THEN mp, OF first])
  have r3: "snd (GetPodConditionFromList (Some [?A, ?R1, ?R2]) ''Ready'') =
      snd (GetPodConditionFromList (Some [?R1, ?B, ?R2, ?A]) ''Ready'')"
    by (rule c6 [THEN mp, OF same_filter])
  have r4: "GetPodConditionFromList (Some [?A, ?R1, ?R2]) ''Ready'' =
      GetPodConditionFromList (Some [?B, ?R1, ?R2]) ''Ready''"
    by (rule c7 [THEN mp, OF same_pos])
  from r2 have r2': "GetPodConditionFromList (Some [?A, ?R1, ?R2]) ''Ready'' = (1, Some ?R1)"
    by simp
  from r3 have r3': "snd (GetPodConditionFromList (Some [?R1, ?B, ?R2, ?A]) ''Ready'') = Some ?R1"
    by (simp only: r2' snd_conv)
  from r4 have r4': "GetPodConditionFromList (Some [?B, ?R1, ?R2]) ''Ready'' = (1, Some ?R1)"
    by (simp only: r2')
  have e1: "list_all (\<lambda>c. Type c \<noteq> ''Ready'') [?A, ?B]" by simp
  have e2: "Type ([?A, ?R1, ?R2] ! 1) = ''Ready''" by simp
  have e3: "Type ([?A, ?R1, ?R2] ! 0) \<noteq> ''Ready''" by simp
  show ?thesis
    by (intro conjI) (rule e1 r1 e2 e3 r2' same_filter r3' r4')+
qed

section \<open>Deletion\<close>

text \<open>
  Claim C4. For every pod, \<^verbatim>\<open>ShouldDeletePod\<close> returns true if and only if the pod's
  \<^verbatim>\<open>DeletionTimestamp\<close> is nil (\<^verbatim>\<open>IsPodDeleted\<close> is false) and
  \<^verbatim>\<open>IsPodInCrashloopBackoff\<close> of its status is true; it is false whenever the
  \<^verbatim>\<open>DeletionTimestamp\<close> is set, whatever the state of the containers.
\<close>

theorem ShouldDeletePod_iff:
  "ShouldDeletePod (Some pod) =
     Inr (DeletionTimestamp pod = None \<and> IsPodInCrashloopBackoff (Pod_Status pod)) \<and>
   IsPodDeleted (Some pod) = Inr (DeletionTimestamp pod \<noteq> None) \<and>
   (DeletionTimestamp pod \<noteq> None \<longrightarrow> ShouldDeletePod (Some pod) = Inr False)"
  by (simp add: ShouldDeletePod_def IsPodDeleted_def)

text \<open>
  The theorem at a crashlooping pod with a deletion timestamp, at the same pod without
  one, and at a pod whose only container runs.
\<close>

theorem ShouldDeletePod_iff_witness:
  "IsPodInCrashloopBackoff (Pod_Status (\<lparr>DeletionTimestamp = Some (Time 3 0), Pod_Status = \<lparr>Conditions = None, ContainerStatuses = Some [\<lparr>Name = ''app'', State = \<lparr>Waiting = None, Running = Some \<lparr>StartedAt = Time 9 0\<rparr>, Terminated = None\<rparr>\<rparr>, \<lparr>Name = ''sidecar'', State = \<lparr>Waiting = Some \<lparr>Reason = ''CrashLoopBackOff'', Message = ''back-off''\<rparr>, Running = None, Terminated = None\<rparr>\<rparr>]\<rparr>\<rparr>)) \<and>
   DeletionTimestamp (\<lparr>DeletionTimestamp = Some (Time 3 0), Pod_Status = \<lparr>Conditions = None, ContainerStatuses = Some [\<lparr>Name = ''app'', State = \<lparr>Waiting = None, Running = Some \<lparr>StartedAt = Time 9 0\<rparr>, Terminated = None\<rparr>\<rparr>, \<lparr>Name = ''sidecar'', State = \<lparr>Waiting = Some \<lparr>Reason = ''CrashLoopBackOff'', Message = ''back-off''\<rparr>, Running = None, Terminated = None\<rparr>\<rparr>]\<rparr>\<rparr>) \<noteq> None \<and>
   ShouldDeletePod (Some (\<lparr>DeletionTimestamp = Some (Time 3 0), Pod_Status = \<lparr>Conditions = None, ContainerStatuses = Some [\<lparr>Name = ''app'', State = \<lparr>Waiting = None, Running = Some \<lparr>StartedAt = Time 9 0\<rparr>, Terminated = None\<rparr>\<rparr>, \<lparr>Name = ''sidecar'', State = \<lparr>Waiting = Some \<lparr>Reason = ''CrashLoopBackOff'', Message = ''back-off''\<rparr>, Running = None, Terminated = None\<rparr>\<rparr>]\<rparr>\<rparr>)) = Inr False \<and>
   ShouldDeletePod (Some (\<lparr>DeletionTimestamp = None, Pod_Status = \<lparr>Conditions = None, ContainerStatuses = Some [\<lparr>Name = ''app'', State = \<lparr>Waiting = None, Running = Some \<lparr>StartedAt = Time 9 0\<rparr>, Terminated = None\<rparr>\<rparr>, \<lparr>Name = ''sidecar'', State = \<lparr>Waiting = Some \<lparr>Reason = ''CrashLoopBackOff'', Message = ''back-off''\<rparr>, Running = None, Terminated = None\<rparr>\<rparr>]\<rparr>\<rparr>)) = Inr True \<and>
   ShouldDeletePod (Some (\<lparr>DeletionTimestamp = None, Pod_Status = \<lparr>Conditions = None, ContainerStatuses = Some [\<lparr>Name = ''app'', State = \<lparr>Waiting = None, Running = Some \<lparr>StartedAt = Time 9 0\<rparr>, Terminated = None\<rparr>\<rparr>]\<rparr>\<rparr>)) = Inr False"
  using ShouldDeletePod_iff [of "\<lparr>DeletionTimestamp = Some (Time 3 0), Pod_Status = \<lparr>Conditions = None, ContainerStatuses = Some [\<lparr>Name = ''app'', State = \<lparr>Waiting = None, Running = Some \<lparr>StartedAt = Time 9 0\<rparr>, Terminated = None\<rparr>\<rparr>, \<lparr>Name = ''sidecar'', State = \<lparr>Waiting = Some \<lparr>Reason = ''CrashLoopBackOff'', Message = ''back-off''\<rparr>, Running = None, Terminated = None\<rparr>\<rparr>]\<rparr>\<rparr>"] ShouldDeletePod_iff [of "\<lparr>DeletionTimestamp = None, Pod_Status = \<lparr>Conditions = None, ContainerStatuses = Some [\<lparr>Name = ''app'', State = \<lparr>Waiting = None, Running = Some \<lparr>StartedAt = Time 9 0\<rparr>, Terminated = None\<rparr>\<rparr>, \<lparr>Name = ''sidecar'', State = \<lparr>Waiting = Some \<lparr>Reason = ''CrashLoopBackOff'', Message = ''back-off''\<rparr>, Running = None, Terminated = None\<rparr>\<rparr>]\<rparr>\<rparr>"]
    ShouldDeletePod_iff [of "\<lparr>DeletionTimestamp = None, Pod_Status = \<lparr>Conditions = None, ContainerStatuses = Some [\<lparr>Name = ''app'', State = \<lparr>Waiting = None, Running = Some \<lparr>StartedAt = Time 9 0\<rparr>, Terminated = None\<rparr>\<rparr>]\<rparr>\<rparr>"]
  by (simp add: eval_crashloop)

section \<open>Crashloop\<close>

text \<open>
  Claim C5. \<^verbatim>\<open>IsPodInCrashloopBackoff\<close> is true if and only if some entry of
  \<^verbatim>\<open>ContainerStatuses\<close> has a state that is Waiting with the reason "CrashLoopBackOff"
  exactly. \<^verbatim>\<open>IsContainerInCrashLoopBackOff\<close> is false for every state that is not Waiting
  (Running, Terminated) and for every Waiting state with another reason, and
  \<^verbatim>\<open>IsPodInCrashloopBackoff\<close> is false for the nil and the empty list.
\<close>

theorem IsPodInCrashloopBackoff_iff:
  "IsPodInCrashloopBackoff status =
     (\<exists>containerStatus \<in> set (elems (ContainerStatuses status)).
        \<exists>w. Waiting (State containerStatus) = Some w \<and> Reason w = ''CrashLoopBackOff'') \<and>
   IsContainerInCrashLoopBackOff containerState =
     (\<exists>w. Waiting containerState = Some w \<and> Reason w = ''CrashLoopBackOff'') \<and>
   \<not> IsContainerInCrashLoopBackOff \<lparr>Waiting = None, Running = r, Terminated = t\<rparr> \<and>
   (Reason w' \<noteq> ''CrashLoopBackOff'' \<longrightarrow>
      \<not> IsContainerInCrashLoopBackOff \<lparr>Waiting = Some w', Running = r', Terminated = t'\<rparr>) \<and>
   \<not> IsPodInCrashloopBackoff (status\<lparr>ContainerStatuses := None\<rparr>) \<and>
   \<not> IsPodInCrashloopBackoff (status\<lparr>ContainerStatuses := Some []\<rparr>)"
proof -
  have container: "IsContainerInCrashLoopBackOff st =
      (\<exists>w. Waiting st = Some w \<and> Reason w = ''CrashLoopBackOff'')" for st
    by (simp add: IsContainerInCrashLoopBackOff_def CrashLoopBackOff_def split: option.split)
  have pod: "IsPodInCrashloopBackoff st =
      (\<exists>containerStatus \<in> set (elems (ContainerStatuses st)).
        \<exists>w. Waiting (State containerStatus) = Some w \<and> Reason w = ''CrashLoopBackOff'')" for st
    by (simp add: IsPodInCrashloopBackoff_def IsPodInCrashloopBackoff_loop_iff container)
  show ?thesis
    by (simp add: pod container elems_def)
qed

text \<open>
  The theorem at a status with a running container and a crashlooping one, at a Waiting
  state with the reason ContainerCreating, and at a Running state.
\<close>

theorem IsPodInCrashloopBackoff_iff_witness:
  "IsPodInCrashloopBackoff (\<lparr>Conditions = None, ContainerStatuses = Some [\<lparr>Name = ''app'', State = \<lparr>Waiting = None, Running = Some \<lparr>StartedAt = Time 9 0\<rparr>, Terminated = None\<rparr>\<rparr>, \<lparr>Name = ''sidecar'', State = \<lparr>Waiting = Some \<lparr>Reason = ''CrashLoopBackOff'', Message = ''back-off''\<rparr>, Running = None, Terminated = None\<rparr>\<rparr>]\<rparr>) \<and>
   Reason \<lparr>Reason = ''ContainerCreating'', Message = []\<rparr> \<noteq> ''CrashLoopBackOff'' \<and>
   \<not> IsContainerInCrashLoopBackOff (\<lparr>Waiting = Some \<lparr>Reason = ''ContainerCreating'', Message = []\<rparr>, Running = None, Terminated = None\<rparr>) \<and>
   \<not> IsContainerInCrashLoopBackOff (\<lparr>Waiting = None, Running = Some \<lparr>StartedAt = Time 9 0\<rparr>, Terminated = None\<rparr>) \<and>
   IsContainerInCrashLoopBackOff (\<lparr>Waiting = Some \<lparr>Reason = ''CrashLoopBackOff'', Message = ''back-off''\<rparr>, Running = None, Terminated = None\<rparr>)"
  using IsPodInCrashloopBackoff_iff [of "\<lparr>Conditions = None, ContainerStatuses = Some [\<lparr>Name = ''app'', State = \<lparr>Waiting = None, Running = Some \<lparr>StartedAt = Time 9 0\<rparr>, Terminated = None\<rparr>\<rparr>, \<lparr>Name = ''sidecar'', State = \<lparr>Waiting = Some \<lparr>Reason = ''CrashLoopBackOff'', Message = ''back-off''\<rparr>, Running = None, Terminated = None\<rparr>\<rparr>]\<rparr>" "\<lparr>Waiting = Some \<lparr>Reason = ''CrashLoopBackOff'', Message = ''back-off''\<rparr>, Running = None, Terminated = None\<rparr>" "Some \<lparr>StartedAt = Time 9 0\<rparr>" None
      "\<lparr>Reason = ''ContainerCreating'', Message = []\<rparr>" None None]
  by (simp add: elems_def)

section \<open>Ready endpoints\<close>

text \<open>
  Claim C7. \<^verbatim>\<open>IsReadyEndpointPresentInSubsets\<close> is true if and only if some subset of
  the list has a non-empty \<^verbatim>\<open>Addresses\<close>; it is false for the nil and the empty list and
  true for a list of one subset with one address.
\<close>

theorem IsReadyEndpointPresentInSubsets_iff:
  "IsReadyEndpointPresentInSubsets subsets =
     (\<exists>subset' \<in> set (elems subsets). elems (Addresses subset') \<noteq> []) \<and>
   \<not> IsReadyEndpointPresentInSubsets None \<and>
   \<not> IsReadyEndpointPresentInSubsets (Some []) \<and>
   IsReadyEndpointPresentInSubsets (Some [\<lparr>Addresses = Some [a], NotReadyAddresses = n\<rparr>])"
  by (simp add: IsReadyEndpointPresentInSubsets_def IsReadyEndpointPresentInSubsets_loop_iff
      elems_def)

text \<open>
  The theorem at a list whose third subset has an address, and at the list of the first
  two, whose addresses are nil and empty.
\<close>

theorem IsReadyEndpointPresentInSubsets_iff_witness:
  "IsReadyEndpointPresentInSubsets (Some [\<lparr>Addresses = None, NotReadyAddresses = Some [\<lparr>IP = ''10.0.0.1'', Hostname = []\<rparr>]\<rparr>, \<lparr>Addresses = Some [], NotReadyAddresses = None\<rparr>, \<lparr>Addresses = Some [\<lparr>IP = ''10.0.0.1'', Hostname = []\<rparr>], NotReadyAddresses = None\<rparr>]) \<and>
   \<not> IsReadyEndpointPresentInSubsets (Some [\<lparr>Addresses = None, NotReadyAddresses = Some [\<lparr>IP = ''10.0.0.1'', Hostname = []\<rparr>]\<rparr>, \<lparr>Addresses = Some [], NotReadyAddresses = None\<rparr>])"
  using IsReadyEndpointPresentInSubsets_iff [of "Some [\<lparr>Addresses = None, NotReadyAddresses = Some [\<lparr>IP = ''10.0.0.1'', Hostname = []\<rparr>]\<rparr>, \<lparr>Addresses = Some [], NotReadyAddresses = None\<rparr>, \<lparr>Addresses = Some [\<lparr>IP = ''10.0.0.1'', Hostname = []\<rparr>], NotReadyAddresses = None\<rparr>]"]
    IsReadyEndpointPresentInSubsets_iff [of "Some [\<lparr>Addresses = None, NotReadyAddresses = Some [\<lparr>IP = ''10.0.0.1'', Hostname = []\<rparr>]\<rparr>, \<lparr>Addresses = Some [], NotReadyAddresses = None\<rparr>]"]
  by (simp add: elems_def)

section \<open>Errors of the loader\<close>

text \<open>
  Claim C8. \<^verbatim>\<open>LoadServiceDependants\<close> returns nil with the error of \<^verbatim>\<open>ReadFile\<close> when
  the file cannot be read, and nil with the error of \<^verbatim>\<open>Unmarshal\<close> when the content does
  not decode, even if \<^verbatim>\<open>Unmarshal\<close> has filled the value in part; the error is the one
  the library returned, unchanged, and no value is ever returned beside an error. When
  neither fails the decoded value is returned with a nil error.
\<close>

theorem LoadServiceDependants_errors:
  "(ReadFile file = (data, Some e) \<longrightarrow>
      LoadServiceDependants ReadFile Unmarshal zero file = (None, Some e)) \<and>
   (ReadFile file = (data, None) \<and> Unmarshal data zero = (partial, Some e) \<longrightarrow>
      LoadServiceDependants ReadFile Unmarshal zero file = (None, Some e)) \<and>
   (snd (LoadServiceDependants ReadFile Unmarshal zero file) \<noteq> None \<longrightarrow>
      fst (LoadServiceDependants ReadFile Unmarshal zero file) = None) \<and>
   (ReadFile file = (data, None) \<and> Unmarshal data zero = (dependants, None) \<longrightarrow>
      LoadServiceDependants ReadFile Unmarshal zero file = (Some dependants, None))"
  by (auto simp: LoadServiceDependants_def decodeConfigFile_def split: prod.splits)

text \<open>
  The theorem with a file system where \<^verbatim>\<open>missing.yaml\<close> cannot be read, a decoder that
  fails after changing the value, and a decoder that succeeds.
\<close>

theorem LoadServiceDependants_errors_witness:
  "(\<lambda>f. if f = ''missing.yaml'' then (None, Some ''no such file'') else (Some [45, 32, 97], None)) ''missing.yaml'' = (None, Some ''no such file'') \<and>
   LoadServiceDependants (\<lambda>f. if f = ''missing.yaml'' then (None, Some ''no such file'') else (Some [45, 32, 97], None)) (\<lambda>d c. (Suc c, Some ''cannot unmarshal'')) (0 :: nat) ''missing.yaml'' = (None, Some ''no such file'') \<and>
   (\<lambda>f. if f = ''missing.yaml'' then (None, Some ''no such file'') else (Some [45, 32, 97], None)) ''config.yaml'' = (Some [45, 32, 97], None) \<and>
   (\<lambda>d c. (Suc c, Some ''cannot unmarshal'')) (Some [45, 32, 97 :: 8 word]) (0 :: nat) = (1, Some ''cannot unmarshal'') \<and>
   LoadServiceDependants (\<lambda>f. if f = ''missing.yaml'' then (None, Some ''no such file'') else (Some [45, 32, 97], None)) (\<lambda>d c. (Suc c, Some ''cannot unmarshal'')) (0 :: nat) ''config.yaml'' = (None, Some ''cannot unmarshal'') \<and>
   LoadServiceDependants (\<lambda>f. if f = ''missing.yaml'' then (None, Some ''no such file'') else (Some [45, 32, 97], None)) (\<lambda>d c. (Suc c, None)) (0 :: nat) ''config.yaml'' = (Some 1, None :: string option)"
  using LoadServiceDependants_errors [of "(\<lambda>f. if f = ''missing.yaml'' then (None, Some ''no such file'') else (Some [45, 32, 97], None))" "''missing.yaml''" None "''no such file''" "(\<lambda>d c. (Suc c, Some ''cannot unmarshal''))" 0]
    LoadServiceDependants_errors [of "(\<lambda>f. if f = ''missing.yaml'' then (None, Some ''no such file'') else (Some [45, 32, 97], None))" "''config.yaml''" "Some [45, 32, 97]" "''cannot unmarshal''"
      "(\<lambda>d c. (Suc c, Some ''cannot unmarshal''))" 0 1]
    LoadServiceDependants_errors [of "(\<lambda>f. if f = ''missing.yaml'' then (None, Some ''no such file'') else (Some [45, 32, 97], None))" "''config.yaml''" "Some [45, 32, 97]" _
      "(\<lambda>d c. (Suc c, None))" 0 _ 1]
  by simp

section \<open>Totality\<close>

text \<open>
  Claim C9. On every pod that is there, \<^verbatim>\<open>IsPodReady\<close>, \<^verbatim>\<open>IsPodAvailable\<close>,
  \<^verbatim>\<open>IsPodDeleted\<close> and \<^verbatim>\<open>ShouldDeletePod\<close> return a boolean and do not panic; the
  other predicates are total functions to \<open>bool\<close>. When the conditions, the container
  statuses, the subsets or the addresses are nil or empty, the answers are the negative
  ones: no Ready condition, not ready, not available, not crashlooping, not to be
  deleted, no ready endpoint. (A nil pod pointer is not a pod: there the four functions
  on pods panic.)
\<close>

theorem predicates_total:
  "(\<exists>b. IsPodReady (Some pod) = Inr b) \<and>
   (\<exists>b. IsPodAvailable (Some pod) s now = Inr b) \<and>
   (\<exists>b. IsPodDeleted (Some pod) = Inr b) \<and>
   (\<exists>b. ShouldDeletePod (Some pod) = Inr b) \<and>
   (elems (Conditions status) = [] \<longrightarrow>
      GetPodReadyCondition status = None \<and> \<not> IsPodReadyConditionTrue status) \<and>
   (elems (Conditions (Pod_Status pod1)) = [] \<longrightarrow>
      IsPodReady (Some pod1) = Inr False \<and> IsPodAvailable (Some pod1) s now = Inr False) \<and>
   (elems (ContainerStatuses (Pod_Status pod2)) = [] \<longrightarrow>
      \<not> IsPodInCrashloopBackoff (Pod_Status pod2) \<and> ShouldDeletePod (Some pod2) = Inr False) \<and>
   (elems subsets = [] \<longrightarrow> \<not> IsReadyEndpointPresentInSubsets subsets) \<and>
   (elems (Addresses subset') = [] \<longrightarrow> \<not> IsReadyEndpointPresentInSubsets (Some [subset']))"
proof -
  have none: "GetPodReadyCondition st = None" if "elems (Conditions st) = []" for st
    using that by (simp add: GetPodReadyCondition_find)
  have crash: "\<not> IsPodInCrashloopBackoff st" if "elems (ContainerStatuses st) = []" for st
    using that by (simp add: IsPodInCrashloopBackoff_def)
  show ?thesis
    by (auto simp: IsPodAvailable_unfold IsPodReady_unfold IsPodDeleted_def ShouldDeletePod_def
        IsPodReadyConditionTrue_def none crash IsReadyEndpointPresentInSubsets_def len_def
        elems_def [of "Some xs" for xs])
qed

text \<open>
  The theorem at a pod whose conditions and container statuses are nil, at the nil list
  of subsets and at a subset whose addresses are nil.
\<close>

theorem predicates_total_witness:
  "elems (Conditions (Pod_Status (\<lparr>DeletionTimestamp = None, Pod_Status = \<lparr>Conditions = None, ContainerStatuses = None\<rparr>\<rparr>))) = [] \<and>
   elems (ContainerStatuses (Pod_Status (\<lparr>DeletionTimestamp = None, Pod_Status = \<lparr>Conditions = None, ContainerStatuses = None\<rparr>\<rparr>))) = [] \<and>
   IsPodReady (Some (\<lparr>DeletionTimestamp = None, Pod_Status = \<lparr>Conditions = None, ContainerStatuses = None\<rparr>\<rparr>)) = Inr False \<and>
   IsPodAvailable (Some (\<lparr>DeletionTimestamp = None, Pod_Status = \<lparr>Conditions = None, ContainerStatuses = None\<rparr>\<rparr>)) 30 (Time 40 0) = Inr False \<and>
   \<not> IsPodInCrashloopBackoff (Pod_Status (\<lparr>DeletionTimestamp = None, Pod_Status = \<lparr>Conditions = None, ContainerStatuses = None\<rparr>\<rparr>)) \<and>
   ShouldDeletePod (Some (\<lparr>DeletionTimestamp = None, Pod_Status = \<lparr>Conditions = None, ContainerStatuses = None\<rparr>\<rparr>)) = Inr False \<and>
   elems (None :: EndpointSubset list option) = [] \<and>
   \<not> IsReadyEndpointPresentInSubsets None \<and>
   elems (Addresses (\<lparr>Addresses = None, NotReadyAddresses = Some [\<lparr>IP = ''10.0.0.1'', Hostname = []\<rparr>]\<rparr>)) = [] \<and>
   \<not> IsReadyEndpointPresentInSubsets (Some [\<lparr>Addresses = None, NotReadyAddresses = Some [\<lparr>IP = ''10.0.0.1'', Hostname = []\<rparr>]\<rparr>])"
  using predicates_total [of "\<lparr>DeletionTimestamp = None, Pod_Status = \<lparr>Conditions = None, ContainerStatuses = None\<rparr>\<rparr>" 30 "Time 40 0" "Pod_Status (\<lparr>DeletionTimestamp = None, Pod_Status = \<lparr>Conditions = None, ContainerStatuses = None\<rparr>\<rparr>)" "\<lparr>DeletionTimestamp = None, Pod_Status = \<lparr>Conditions = None, ContainerStatuses = None\<rparr>\<rparr>" "\<lparr>DeletionTimestamp = None, Pod_Status = \<lparr>Conditions = None, ContainerStatuses = None\<rparr>\<rparr>"
      None "\<lparr>Addresses = None, NotReadyAddresses = Some [\<lparr>IP = ''10.0.0.1'', Hostname = []\<rparr>]\<rparr>"]
  by (simp add: elems_def)

section \<open>Nil status pointer\<close>

text \<open>
  Claim C10. For every condition type, \<^verbatim>\<open>GetPodCondition\<close> called with a nil status
  pointer returns the not-found sentinel, index -1 and a nil condition; it does not fail.
\<close>

theorem GetPodCondition_nil_status:
  "GetPodCondition None conditionType = (-1, None)"
  by (simp add: GetPodCondition_def)

end
